theory Spec2Isabelle
  imports Main "HOL-Library.Word"
begin

section \<open>The terminal bridge of \<^verbatim>\<open>src/server/wss/terminal.ts\<close>\<close>

text \<open>
  The source is one event-driven routine: a handler for a new WebSocket connection that
  checks the caller, looks the target machine up, opens an SSH connection and registers
  further handlers on the socket (\<^verbatim>\<open>ws\<close>), the SSH client (\<^verbatim>\<open>conn\<close>) and the shell
  channel (\<^verbatim>\<open>stream\<close>).  The embedding makes every call on one of these objects an
  \<^emph>\<open>effect\<close> and every handler a function from its arguments to the list of effects it
  performs, in program order.  Which handlers are registered is the state of a session.

  JavaScript strings are modelled as HOL strings (read as their UTF-8 encoding), the bytes
  of a \<^verbatim>\<open>Buffer\<close> as a list of octets.
\<close>

subsection \<open>Values of the host language\<close>

type_synonym octets = "8 word list"

text \<open>
  What \<^verbatim>\<open>JSON.parse\<close> returns.  Numbers stay abstract (\<open>'n\<close>): the handler only tests
  their type and multiplies them.  An object is the list of its own properties.
\<close>

datatype 'n json =
    JNull
  | JBool bool
  | JNum 'n
  | JStr string
  | JArr "'n json list"
  | JObj "(string \<times> 'n json) list"

text \<open>
  Thrown values.  \<open>Error\<close> stands for an instance of \<^verbatim>\<open>Error\<close> of any class other than
  the two named ones, \<open>NonError\<close> for a thrown value that is no \<^verbatim>\<open>Error\<close> at all.
\<close>

datatype js_error =
    SyntaxError string
  | TypeError string
  | Error string
  | NonError

fun instanceof_SyntaxError :: "js_error \<Rightarrow> bool" where
  "instanceof_SyntaxError (SyntaxError _) = True"
| "instanceof_SyntaxError _ = False"

fun instanceof_Error :: "js_error \<Rightarrow> bool" where
  "instanceof_Error NonError = False"
| "instanceof_Error _ = True"

fun error_message :: "js_error \<Rightarrow> string" where
  "error_message (SyntaxError m) = m"
| "error_message (TypeError m) = m"
| "error_message (Error m) = m"
| "error_message NonError = []"

text \<open>
  The argument of the socket's \<^verbatim>\<open>message\<close> event: the type \<^verbatim>\<open>RawData\<close> of the
  \<^verbatim>\<open>ws\<close> package.  With the socket's default binary type, which the source never
  changes, every message arrives as a \<open>Buffer\<close>.
\<close>

datatype raw_data =
    Buffer octets
  | ArrayBuffer octets
  | BufferList "octets list"

subsection \<open>Effects\<close>

text \<open>
  Numbers made by \<^verbatim>\<open>Number.parseInt\<close> are integers or \<^verbatim>\<open>NaN\<close>.  (The rounding of
  integers beyond \<open>2^53\<close> to a double is not modelled.)
\<close>

datatype number = NaN | Num int

fun num_times :: "number \<Rightarrow> number \<Rightarrow> number" where
  "num_times (Num a) (Num b) = Num (a * b)"
| "num_times _ _ = NaN"

text \<open>
  Modelled from the spec: the type of the property \<^verbatim>\<open>sshInfo\<close> of a row of the table
  \<^verbatim>\<open>vm\<close> (the schema file is not among the sources): host, port, user name and inline
  key material, and the id of a stored key, which the handler reads.
\<close>

record ssh_info =
  host :: "string option"
  port :: "int option"
  username :: "string option"
  privateKey :: "string option"
  sshKeyId :: "int option"

text \<open>
  The argument of \<^verbatim>\<open>conn.connect\<close>.  The object spread \<^verbatim>\<open>...vm.sshInfo\<close> is kept as
  the field \<open>spread\<close>; the four properties written after it override its own.
\<close>

record connect_config =
  timeout :: nat
  keepaliveInterval :: nat
  readyTimeout :: nat
  spread :: ssh_info
  cfg_host :: "string option"
  cfg_port :: int
  cfg_username :: string
  cfg_privateKey :: "string option"

record shell_options =
  shell_term :: string
  shell_cols :: number
  shell_rows :: number
  shell_width :: number
  shell_height :: number

datatype 'n effect =
    AuthGetSession
  | DbFindVm string
  | DbFindKey int
  | SetInterval nat
  | ClearInterval
  | WsSend string
  | WsClose
  | WsPing
  | ConnConnect connect_config
  | ConnShell shell_options
  | ConnEnd
  | StreamSetEncoding string
  | StreamWrite string
  | StreamSetWindow 'n 'n 'n 'n
  | StreamEnd
  | ConsoleLog string
  | ConsoleError string

fun is_stream_call :: "'n effect \<Rightarrow> bool" where
  "is_stream_call (StreamSetEncoding _) = True"
| "is_stream_call (StreamWrite _) = True"
| "is_stream_call (StreamSetWindow _ _ _ _) = True"
| "is_stream_call StreamEnd = True"
| "is_stream_call _ = False"

fun is_write :: "'n effect \<Rightarrow> bool" where
  "is_write (StreamWrite _) = True"
| "is_write _ = False"

subsection \<open>The library functions the message handler calls\<close>

text \<open>
  None of these is code of the repository, so each is a parameter:
  \<^item> \<open>utf8\<close> is \<^verbatim>\<open>Buffer.prototype.toString\<close>, the UTF-8 decoding of a buffer
    (in the running program it is the function \<open>utf8_decode\<close> defined further down);
  \<^item> \<open>JSON_parse\<close> is \<^verbatim>\<open>JSON.parse\<close> on a string; \<open>Inl m\<close> is the
    \<^verbatim>\<open>SyntaxError\<close> with message \<open>m\<close> that it throws on text that is not JSON;
  \<^item> \<open>write_outcome\<close> and \<open>setWindow_outcome\<close> say whether the call on the shell channel
    returns (\<open>None\<close>) or throws.
\<close>

record 'n host =
  utf8 :: "octets \<Rightarrow> string"
  JSON_parse :: "string \<Rightarrow> string + 'n json"
  write_outcome :: "string \<Rightarrow> js_error option"
  setWindow_outcome :: "'n \<Rightarrow> 'n \<Rightarrow> 'n \<Rightarrow> 'n \<Rightarrow> js_error option"

text \<open>\<^verbatim>\<open>Array.prototype.join\<close> with the separator \<^verbatim>\<open>","\<close>.\<close>

fun join_comma :: "string list \<Rightarrow> string" where
  "join_comma [] = []"
| "join_comma [s] = s"
| "join_comma (s # t # ss) = s @ '','' @ join_comma (t # ss)"

text \<open>\<^verbatim>\<open>message.toString()\<close>, by the class of the message.\<close>

fun toString :: "'n host \<Rightarrow> raw_data \<Rightarrow> string" where
  "toString h (Buffer b) = utf8 h b"
| "toString h (ArrayBuffer b) = ''[object ArrayBuffer]''"
| "toString h (BufferList bs) = join_comma (map (utf8 h) bs)"

text \<open>The local variable \<^verbatim>\<open>command\<close>: a string, or the message itself.\<close>

datatype command = CmdString string | CmdRaw raw_data

fun command_of :: "'n host \<Rightarrow> raw_data \<Rightarrow> command" where
  "command_of h (Buffer b) = CmdString (utf8 h b)"
| "command_of h m = CmdRaw m"

fun command_toString :: "'n host \<Rightarrow> command \<Rightarrow> string" where
  "command_toString h (CmdString s) = s"
| "command_toString h (CmdRaw m) = toString h m"

text \<open>
  Reading a property: \<open>None\<close> is \<^verbatim>\<open>undefined\<close>.  Only \<^verbatim>\<open>type\<close>, \<^verbatim>\<open>rows\<close>,
  \<^verbatim>\<open>cols\<close> and \<^verbatim>\<open>data\<close> are read, which no prototype of a JSON value defines.
  On \<^verbatim>\<open>null\<close> the read throws (the message is the one of V8).
\<close>

fun get_prop :: "'n json \<Rightarrow> string \<Rightarrow> 'n json option" where
  "get_prop (JObj kvs) k = map_of kvs k"
| "get_prop _ k = None"

definition null_read :: "string \<Rightarrow> js_error" where
  "null_read k = TypeError (''Cannot read properties of null (reading '' @ [CHR 0x27] @ k @ [CHR 0x27] @ '')'')"

subsection \<open>The handler of the socket's \<^verbatim>\<open>message\<close> event (lines 139 to 186)\<close>

text \<open>
  The body of the inner \<^verbatim>\<open>try\<close>, lines 148 to 172: the effects performed and the value
  thrown, if any.  A call that throws has still been made.
\<close>

definition try_body :: "('n::{times,numeral}) host \<Rightarrow> raw_data \<Rightarrow> 'n effect list \<times> js_error option" where
  "try_body h message =
     (case JSON_parse h (toString h message) of
        Inl m \<Rightarrow> ([], Some (SyntaxError m))
      | Inr JNull \<Rightarrow> ([], Some (null_read ''type''))
      | Inr data \<Rightarrow>
          if get_prop data ''type'' = Some (JStr ''resize'') then
            (case (get_prop data ''rows'', get_prop data ''cols'') of
               (Some (JNum r), Some (JNum c)) \<Rightarrow>
                 ([StreamSetWindow r c (c * 7) (r * 14)],
                  setWindow_outcome h r c (c * 7) (r * 14))
             | _ \<Rightarrow> ([], None))
          else
            (let text = (case get_prop data ''data'' of
                            Some (JStr s) \<Rightarrow> s
                          | _ \<Rightarrow> toString h message)
             in ([StreamWrite text], write_outcome h text)))"

text \<open>
  The inner \<^verbatim>\<open>try\<close> with its \<^verbatim>\<open>catch\<close>, lines 147 to 180: a \<^verbatim>\<open>SyntaxError\<close> is
  answered by writing the command to the shell, any other value is thrown again.
\<close>

definition inner_try :: "('n::{times,numeral}) host \<Rightarrow> raw_data \<Rightarrow> 'n effect list \<times> js_error option" where
  "inner_try h message =
     (let command = command_of h message;
          (effs, thrown) = try_body h message
      in case thrown of
           None \<Rightarrow> (effs, None)
         | Some e \<Rightarrow>
             if instanceof_SyntaxError e
             then (effs @ [StreamWrite (command_toString h command)],
                   write_outcome h (command_toString h command))
             else (effs, Some e))"

text \<open>The outer \<^verbatim>\<open>catch\<close>, lines 181 to 185.\<close>

definition error_notice :: "js_error \<Rightarrow> 'n effect" where
  "error_notice e =
     WsSend (''[ERROR] '' @ (if instanceof_Error e then error_message e else ''Unknown error''))"

definition ws_on_message :: "('n::{times,numeral}) host \<Rightarrow> raw_data \<Rightarrow> 'n effect list" where
  "ws_on_message h message =
     (case inner_try h message of
        (effs, None) \<Rightarrow> effs
      | (effs, Some e) \<Rightarrow> effs @ [error_notice e])"

subsection \<open>The connection handler (lines 33 to 96 and 215 to 224)\<close>

text \<open>
  Modelled from the spec: the types of the rows of the tables \<^verbatim>\<open>vm\<close> and
  \<^verbatim>\<open>sshKeysTable\<close>, whose schema files are not among the sources.  The connection
  parameters are a host, a port, a user name and key material, and a key stored apart
  has key material; to these the records add the properties the handler reads
  (\<^verbatim>\<open>sshKeyId\<close>, \<^verbatim>\<open>ipAddress\<close>).  Every property may be missing.
\<close>

record ssh_key =
  key_privateKey :: "string option"

record vm =
  ipAddress :: "string option"
  sshInfo :: "ssh_info option"

text \<open>
  The services behind the handler: \<open>getSession\<close> is \<^verbatim>\<open>auth.api.getSession\<close> on the
  request headers, \<open>vm_findFirst\<close> the query for the row whose id is
  \<^verbatim>\<open>Number(vmId)\<close>, as a function of \<^verbatim>\<open>vmId\<close>, and \<open>sshKeys_findFirst\<close> the query for
  the key with a given id.
\<close>

record backend =
  getSession :: "(string \<times> string) list \<Rightarrow> string option"
  vm_findFirst :: "string \<Rightarrow> vm option"
  sshKeys_findFirst :: "int \<Rightarrow> ssh_key option"

text \<open>A request: its headers and the search parameters of its URL, in order.\<close>

record request =
  headers :: "(string \<times> string) list"
  searchParams :: "(string \<times> string) list"

text \<open>\<^verbatim>\<open>url.searchParams.get\<close>: the first value of the name, \<open>None\<close> for \<^verbatim>\<open>null\<close>.\<close>

definition searchParams_get :: "request \<Rightarrow> string \<Rightarrow> string option" where
  "searchParams_get req name = map_of (searchParams req) name"

text \<open>
  \<^verbatim>\<open>Number.parseInt\<close> with one argument: leading white space is skipped, then a sign,
  then \<^verbatim>\<open>0x\<close> selects radix 16, and the longest prefix of digits is the value;
  \<^verbatim>\<open>NaN\<close> when that prefix is empty.

  White space is what the language calls white space and line terminators: the six
  ASCII characters of \<open>is_space\<close>, and the characters U+00A0, U+1680, U+2000 to U+200A,
  U+2028, U+2029, U+202F, U+205F, U+3000 and U+FEFF, which in a string read as UTF-8 are
  the two and three bytes of \<open>wide_spaces\<close>.
\<close>

definition is_space :: "char \<Rightarrow> bool" where
  "is_space c = (c \<in> set [CHR 0x09, CHR 0x0A, CHR 0x0B, CHR 0x0C, CHR 0x0D, CHR 0x20])"

definition wide_spaces :: "string list" where
  "wide_spaces =
     [[CHR 0xC2, CHR 0xA0],
      [CHR 0xE1, CHR 0x9A, CHR 0x80],
      [CHR 0xE2, CHR 0x80, CHR 0x80], [CHR 0xE2, CHR 0x80, CHR 0x81],
      [CHR 0xE2, CHR 0x80, CHR 0x82], [CHR 0xE2, CHR 0x80, CHR 0x83],
      [CHR 0xE2, CHR 0x80, CHR 0x84], [CHR 0xE2, CHR 0x80, CHR 0x85],
      [CHR 0xE2, CHR 0x80, CHR 0x86], [CHR 0xE2, CHR 0x80, CHR 0x87],
      [CHR 0xE2, CHR 0x80, CHR 0x88], [CHR 0xE2, CHR 0x80, CHR 0x89],
      [CHR 0xE2, CHR 0x80, CHR 0x8A],
      [CHR 0xE2, CHR 0x80, CHR 0xA8], [CHR 0xE2, CHR 0x80, CHR 0xA9],
      [CHR 0xE2, CHR 0x80, CHR 0xAF],
      [CHR 0xE2, CHR 0x81, CHR 0x9F],
      [CHR 0xE3, CHR 0x80, CHR 0x80],
      [CHR 0xEF, CHR 0xBB, CHR 0xBF]]"

fun trim_start :: "string \<Rightarrow> string" where
  "trim_start [] = []"
| "trim_start (c # cs) =
     (if is_space c then trim_start cs
      else if take 2 (c # cs) \<in> set wide_spaces then trim_start (drop 1 cs)
      else if take 3 (c # cs) \<in> set wide_spaces then trim_start (drop 2 cs)
      else c # cs)"

definition char_value :: "char \<Rightarrow> nat option" where
  "char_value c =
     (let n = (of_char c :: nat)
      in if 48 \<le> n \<and> n \<le> 57 then Some (n - 48)
         else if 97 \<le> n \<and> n \<le> 102 then Some (n - 87)
         else if 65 \<le> n \<and> n \<le> 70 then Some (n - 55)
         else None)"

fun digits :: "nat \<Rightarrow> string \<Rightarrow> nat list" where
  "digits R [] = []"
| "digits R (c # cs) =
     (case char_value c of
        None \<Rightarrow> []
      | Some d \<Rightarrow> if d < R then d # digits R cs else [])"

definition digits_value :: "nat \<Rightarrow> nat list \<Rightarrow> nat" where
  "digits_value R ds = foldl (\<lambda>a d. a * R + d) 0 ds"

definition parseInt :: "string \<Rightarrow> number" where
  "parseInt string =
     (let S = trim_start string;
          negative = (take 1 S = ''-'');
          S1 = (if take 1 S = ''-'' \<or> take 1 S = ''+'' then drop 1 S else S);
          hex = (take 2 S1 = ''0x'' \<or> take 2 S1 = ''0X'');
          R = (if hex then 16 else 10);
          S2 = (if hex then drop 2 S1 else S1);
          Z = digits R S2
      in if Z = [] then NaN
         else Num ((if negative then - 1 else 1) * int (digits_value R Z)))"

text \<open>Truthiness of a string that may be missing, and of a number that may be missing.\<close>

definition truthy :: "string option \<Rightarrow> bool" where
  "truthy v = (case v of None \<Rightarrow> False | Some s \<Rightarrow> s \<noteq> [])"

definition truthy_num :: "int option \<Rightarrow> bool" where
  "truthy_num v = (case v of None \<Rightarrow> False | Some n \<Rightarrow> n \<noteq> 0)"

text \<open>
  Lines 76 to 80: the key is looked up only when \<^verbatim>\<open>sshKeyId\<close> is truthy.  The first
  function is the value of \<^verbatim>\<open>sshKey\<close>, the second the query made for it.
\<close>

definition find_sshKey :: "backend \<Rightarrow> ssh_info \<Rightarrow> ssh_key option" where
  "find_sshKey b info =
     (case sshKeyId info of
        None \<Rightarrow> None
      | Some k \<Rightarrow> if k \<noteq> 0 then sshKeys_findFirst b k else None)"

definition find_sshKey_query :: "ssh_info \<Rightarrow> 'n effect list" where
  "find_sshKey_query info =
     (case sshKeyId info of
        None \<Rightarrow> []
      | Some k \<Rightarrow> if k \<noteq> 0 then [DbFindKey k] else [])"

text \<open>Line 82: \<^verbatim>\<open>sshKey?.privateKey ?? vm.sshInfo.privateKey\<close>.\<close>

definition select_privateKey :: "ssh_key option \<Rightarrow> ssh_info \<Rightarrow> string option" where
  "select_privateKey sshKey info =
     (case (case sshKey of None \<Rightarrow> None | Some k \<Rightarrow> key_privateKey k) of
        None \<Rightarrow> privateKey info
      | Some pk \<Rightarrow> Some pk)"

text \<open>Lines 215 to 224: the argument of \<^verbatim>\<open>conn.connect\<close>.\<close>

definition connect_options :: "vm \<Rightarrow> ssh_info \<Rightarrow> string option \<Rightarrow> connect_config" where
  "connect_options v info pk =
     \<lparr> timeout = 3000,
       keepaliveInterval = 10000,
       readyTimeout = 3000,
       spread = info,
       cfg_host = (if truthy (host info) then host info
                   else if truthy (ipAddress v) then ipAddress v else None),
       cfg_port = (if truthy_num (port info) then (case port info of Some p \<Rightarrow> p | None \<Rightarrow> 22) else 22),
       cfg_username = (case username info of
                         None \<Rightarrow> ''root''
                       | Some u \<Rightarrow> if u \<noteq> [] then u else ''root''),
       cfg_privateKey = pk \<rparr>"

text \<open>The notice of line 96, in UTF-8.\<close>

definition connecting_notice :: string where
  "connecting_notice =
     [CHR 0xE6, CHR 0xAD, CHR 0xA3, CHR 0xE5, CHR 0x9C, CHR 0xA8, CHR 0xE5, CHR 0xB0, CHR 0x9D,
      CHR 0xE8, CHR 0xAF, CHR 0x95, CHR 0xE8, CHR 0xBF, CHR 0x9E, CHR 0xE6, CHR 0x8E, CHR 0xA5,
      CHR 0xE6, CHR 0x9C, CHR 0x8D, CHR 0xE5, CHR 0x8A, CHR 0xA1, CHR 0xE5, CHR 0x99, CHR 0xA8]
     @ ''...'' @ [CHR 0x0D]"

subsection \<open>Sessions\<close>

text \<open>
  What a session remembers: which listeners are registered (\<open>phase\<close>), the two numbers
  \<^verbatim>\<open>cols\<close> and \<^verbatim>\<open>rows\<close> its closures hold, whether the interval timer is still set, and
  the socket's \<^verbatim>\<open>readyState\<close>.
  \<^item> \<open>Connecting\<close>: \<^verbatim>\<open>conn\<close> has its \<^verbatim>\<open>ready\<close> listener (once) and its \<^verbatim>\<open>error\<close> listener.
  \<^item> \<open>ShellRequested\<close>: \<^verbatim>\<open>conn.shell\<close> was called, its callback has not run.
  \<^item> \<open>ShellFailed\<close>: the callback ran with an error.
  \<^item> \<open>ShellOpen\<close>: the callback ran with a stream and registered the listeners of
    lines 119 to 198.
  No listener is ever removed, except the \<^verbatim>\<open>ready\<close> listener by firing.
\<close>

datatype phase = Connecting | ShellRequested | ShellFailed | ShellOpen

datatype readyState = OPEN | CLOSING | CLOSED

record session =
  phase :: phase
  conn_cols :: number
  conn_rows :: number
  pingInterval :: bool
  readyState :: readyState

text \<open>
  The handler of \<^verbatim>\<open>connection\<close>.  It returns no session when it rejects the request:
  nothing is registered then.
\<close>

text \<open>Lines 51 and 52: the size asked for, columns then rows.\<close>

definition geometry :: "request \<Rightarrow> number \<times> number" where
  "geometry req =
     (parseInt (case searchParams_get req ''cols'' of None \<Rightarrow> ''80'' | Some c \<Rightarrow> c),
      parseInt (case searchParams_get req ''rows'' of None \<Rightarrow> ''30'' | Some r \<Rightarrow> r))"

definition reject :: "'n effect list \<Rightarrow> string \<Rightarrow> session option \<times> 'n effect list" where
  "reject done notice = (None, done @ [WsSend notice, WsClose])"

text \<open>Lines 76 to 96 and 215 to 224, once the row and its \<^verbatim>\<open>sshInfo\<close> are there.\<close>

definition start_session ::
  "backend \<Rightarrow> number \<Rightarrow> number \<Rightarrow> vm \<Rightarrow> ssh_info \<Rightarrow> session \<times> 'n effect list" where
  "start_session b cols rows v info =
     (let sshKey = find_sshKey b info;
          pk = select_privateKey sshKey info
      in (\<lparr> phase = Connecting, conn_cols = cols, conn_rows = rows,
             pingInterval = True, readyState = OPEN \<rparr>,
          find_sshKey_query info @
          [SetInterval 30000, WsSend connecting_notice, ConnConnect (connect_options v info pk)]))"

text \<open>Lines 60 to 74: the row of the machine and its \<^verbatim>\<open>sshInfo\<close>.\<close>

definition resolve ::
  "backend \<Rightarrow> number \<Rightarrow> number \<Rightarrow> string \<Rightarrow> session option \<times> 'n effect list" where
  "resolve b cols rows vmId =
     (case vm_findFirst b vmId of
        None \<Rightarrow> reject [AuthGetSession, DbFindVm vmId] ''[ERROR] Server not found''
      | Some v \<Rightarrow>
          (case sshInfo v of
             None \<Rightarrow>
               reject [AuthGetSession, DbFindVm vmId]
                 ''[ERROR] No SSH key or password available for this server''
           | Some info \<Rightarrow>
               (case start_session b cols rows v info of
                  (s, effs) \<Rightarrow> (Some s, [AuthGetSession, DbFindVm vmId] @ effs))))"

definition on_connection :: "backend \<Rightarrow> request \<Rightarrow> session option \<times> 'n effect list" where
  "on_connection b req =
     (case getSession b (headers req) of
        None \<Rightarrow> reject [AuthGetSession] ''[ERROR] Unauthorized''
      | Some _ \<Rightarrow>
          (let vmId = searchParams_get req ''vmId'';
               cols = fst (geometry req);
               rows = snd (geometry req)
           in (case vmId of
                 None \<Rightarrow> reject [AuthGetSession] ''[ERROR] Invalid request''
               | Some v \<Rightarrow>
                   if v = [] then reject [AuthGetSession] ''[ERROR] Invalid request''
                   else resolve b cols rows v)))"

subsection \<open>The listeners\<close>

text \<open>The escape sequence of line 114.\<close>

definition clearScreenCommand :: string where
  "clearScreenCommand = CHR 0x1B # ''[2J''"

text \<open>Lines 99 to 107: the \<^verbatim>\<open>ready\<close> listener asks for a shell.\<close>

definition conn_on_ready :: "session \<Rightarrow> 'n effect list" where
  "conn_on_ready s =
     [ConnShell \<lparr> shell_term = ''xterm-256color'',
                  shell_cols = conn_cols s,
                  shell_rows = conn_rows s,
                  shell_width = num_times (conn_cols s) (Num 7),
                  shell_height = num_times (conn_rows s) (Num 14) \<rparr>]"

text \<open>
  Lines 108 to 117: the callback of \<^verbatim>\<open>conn.shell\<close>, with the message of its error or
  with a stream.
\<close>

definition shell_callback :: "string option \<Rightarrow> 'n effect list" where
  "shell_callback err =
     (case err of
        Some m \<Rightarrow> [WsSend (''[ERROR] Shell error: '' @ m), WsClose]
      | None \<Rightarrow> [WsSend clearScreenCommand, StreamSetEncoding ''utf8''])"

text \<open>
  Lines 120 to 125: the stream's \<^verbatim>\<open>close\<close> listener.  Its argument is the code as the
  template literal prints it.
\<close>

definition stream_on_close :: "string \<Rightarrow> 'n effect list" where
  "stream_on_close code =
     [ClearInterval,
      WsSend ([CHR 0x0A] @ ''Connection closed ('' @ code @ '')'' @ [CHR 0x0A]),
      ConnEnd,
      WsClose]"

text \<open>Lines 126 to 137: output of the shell, standard and error.\<close>

definition stream_on_data :: "string \<Rightarrow> 'n effect list" where
  "stream_on_data d = [WsSend d]"

definition stderr_on_data :: "string \<Rightarrow> 'n effect list" where
  "stderr_on_data d = [WsSend d, ConsoleError (''Error: '' @ '' '' @ d)]"

text \<open>Lines 188 to 193: the socket's \<^verbatim>\<open>close\<close> listener.\<close>

definition ws_on_close :: "'n effect list" where
  "ws_on_close = [ClearInterval, ConsoleLog ''close'', StreamEnd, ConnEnd]"

text \<open>Lines 195 to 198: the stream's \<^verbatim>\<open>error\<close> listener.\<close>

definition stream_on_error :: "string \<Rightarrow> 'n effect list" where
  "stream_on_error m =
     [ConsoleError ''Stream error:'', WsSend (''[ERROR] Stream error: '' @ m)]"

text \<open>
  Lines 202 to 214: the \<^verbatim>\<open>error\<close> listener of \<^verbatim>\<open>conn\<close>, with the error's
  \<^verbatim>\<open>level\<close> (which may be missing) and its message.
\<close>

definition conn_on_error :: "string option \<Rightarrow> string \<Rightarrow> 'n effect list" where
  "conn_on_error level m =
     [ConsoleLog ''error'',
      ClearInterval,
      WsSend (if level = Some ''client-authentication''
              then ''[ERROR] Authentication failed: Invalid SSH private key. ''
                   @ [CHR 0xE2, CHR 0x9D, CHR 0x8C] @ '' Error: '' @ m @ '' '' @ ''client-authentication''
              else ''[ERROR] SSH connection error: '' @ m),
      ConnEnd,
      WsClose]"

text \<open>Lines 90 to 94: one tick of the interval timer.\<close>

definition ping_tick :: "session \<Rightarrow> 'n effect list" where
  "ping_tick s = (if readyState s = OPEN then [WsPing] else [])"

subsection \<open>Events and the run of a session\<close>

datatype event =
    ConnReady
  | ShellCallback "string option"
  | ConnError "string option" string
  | StreamClose string
  | StreamData string
  | StderrData string
  | StreamError string
  | WsMessage raw_data
  | WsCloseEvent
  | Tick

text \<open>What \<^verbatim>\<open>ws.close()\<close> does to the socket's state.\<close>

definition closing :: "session \<Rightarrow> session" where
  "closing s = (if readyState s = OPEN then s\<lparr>readyState := CLOSING\<rparr> else s)"

text \<open>
  One event: the listener registered for it in this phase runs, or nobody listens and
  the event is lost.
\<close>

fun step :: "('n::{times,numeral}) host \<Rightarrow> session \<Rightarrow> event \<Rightarrow> session \<times> 'n effect list" where
  "step h s ConnReady =
     (if phase s = Connecting then (s\<lparr>phase := ShellRequested\<rparr>, conn_on_ready s) else (s, []))"
| "step h s (ShellCallback err) =
     (if phase s = ShellRequested then
        (case err of
           Some m \<Rightarrow> (closing (s\<lparr>phase := ShellFailed\<rparr>), shell_callback err)
         | None \<Rightarrow> (s\<lparr>phase := ShellOpen\<rparr>, shell_callback err))
      else (s, []))"
| "step h s (ConnError level m) = (closing (s\<lparr>pingInterval := False\<rparr>), conn_on_error level m)"
| "step h s (StreamClose code) =
     (if phase s = ShellOpen then (closing (s\<lparr>pingInterval := False\<rparr>), stream_on_close code)
      else (s, []))"
| "step h s (StreamData d) = (if phase s = ShellOpen then (s, stream_on_data d) else (s, []))"
| "step h s (StderrData d) = (if phase s = ShellOpen then (s, stderr_on_data d) else (s, []))"
| "step h s (StreamError m) = (if phase s = ShellOpen then (s, stream_on_error m) else (s, []))"
| "step h s (WsMessage message) =
     (if phase s = ShellOpen then (s, ws_on_message h message) else (s, []))"
| "step h s WsCloseEvent =
     (if phase s = ShellOpen then (s\<lparr>pingInterval := False, readyState := CLOSED\<rparr>, ws_on_close)
      else (s\<lparr>readyState := CLOSED\<rparr>, []))"
| "step h s Tick = (if pingInterval s then (s, ping_tick s) else (s, []))"

fun run :: "('n::{times,numeral}) host \<Rightarrow> session \<Rightarrow> event list \<Rightarrow> 'n effect list" where
  "run h s [] = []"
| "run h s (e # es) = snd (step h s e) @ run h (fst (step h s e)) es"

fun final :: "('n::{times,numeral}) host \<Rightarrow> session \<Rightarrow> event list \<Rightarrow> session" where
  "final h s [] = s"
| "final h s (e # es) = final h (fst (step h s e)) es"


text \<open>The events whose listener calls \<^verbatim>\<open>ws.close()\<close>, and those whose listener calls \<^verbatim>\<open>conn.end()\<close>.\<close>

fun closes_ws :: "event \<Rightarrow> bool" where
  "closes_ws (StreamClose _) = True"
| "closes_ws (ConnError _ _) = True"
| "closes_ws _ = False"

fun ends_conn :: "event \<Rightarrow> bool" where
  "ends_conn (StreamClose _) = True"
| "ends_conn (ConnError _ _) = True"
| "ends_conn WsCloseEvent = True"
| "ends_conn _ = False"

text \<open>The events of the shell channel: those of \<^verbatim>\<open>stream\<close> and of \<^verbatim>\<open>stream.stderr\<close>.\<close>

fun is_stream_event :: "event \<Rightarrow> bool" where
  "is_stream_event (StreamClose _) = True"
| "is_stream_event (StreamData _) = True"
| "is_stream_event (StderrData _) = True"
| "is_stream_event (StreamError _) = True"
| "is_stream_event _ = False"

subsection \<open>The bytes of a message and the bytes the shell receives\<close>









text \<open>
  What \<^verbatim>\<open>stream.write\<close> puts on the channel for a string is its UTF-8 encoding: the
  bytes of the string.  The input of the shell is what the writes put there, in order.
\<close>

definition octets_of :: "string \<Rightarrow> octets" where
  "octets_of s = map (\<lambda>c. of_nat (of_char c)) s"



subsection \<open>A concrete machine, for the examples\<close>

text \<open>A decoder that takes every byte for a character: right for buffers of ASCII text.\<close>

definition ascii :: "octets \<Rightarrow> string" where
  "ascii b = map (\<lambda>w. char_of (unat w)) b"

definition resize_text :: string where
  \<open>resize_text = ''{"type":"resize","rows":40,"cols":120}''\<close>

text \<open>A parser that knows three texts and rejects every other.\<close>

definition example_parse :: "string \<Rightarrow> string + int json" where
  \<open>example_parse s =
     (if s = resize_text
      then Inr (JObj [(''type'', JStr ''resize''), (''rows'', JNum 40), (''cols'', JNum 120)])
      else if s = ''null'' then Inr JNull
      else if s = ''{"data":"ls"}'' then Inr (JObj [(''data'', JStr ''ls'')])
      else Inl ''Unexpected token'')\<close>

definition example_host :: "int host" where
  "example_host =
     \<lparr> utf8 = ascii,
       JSON_parse = example_parse,
       write_outcome = (\<lambda>_. None),
       setWindow_outcome = (\<lambda>_ _ _ _. None) \<rparr>"


definition info_with_key :: "int option \<Rightarrow> ssh_info" where
  "info_with_key k = \<lparr> host = None, port = None, username = None,
                        privateKey = Some ''INLINE'', sshKeyId = k \<rparr>"

definition example_vm :: vm where
  "example_vm =
     \<lparr> ipAddress = Some ''10.0.0.5'',
       sshInfo = Some (info_with_key (Some 7)) \<rparr>"

definition example_backend :: backend where
  "example_backend =
     \<lparr> getSession = (\<lambda>hs. map_of hs ''cookie''),
       vm_findFirst = (\<lambda>vmId. if vmId = ''1'' then Some example_vm else None),
       sshKeys_findFirst = (\<lambda>k. if k = 7 then Some \<lparr> key_privateKey = Some ''STORED'' \<rparr> else None) \<rparr>"

definition open_session :: session where
  "open_session =
     \<lparr> phase = ShellOpen, conn_cols = Num 80, conn_rows = Num 30,
       pingInterval = True, readyState = OPEN \<rparr>"


text \<open>
  Three requests of a caller with a session: one that names machine 1 and no size, one
  that names no machine, and one whose size is not a number.
\<close>

definition plain_request :: request where
  "plain_request = \<lparr> headers = [(''cookie'', ''alice'')], searchParams = [(''vmId'', ''1'')] \<rparr>"

definition anonymous_target_request :: request where
  "anonymous_target_request =
     \<lparr> headers = [(''cookie'', ''alice'')], searchParams = [(''cols'', ''100'')] \<rparr>"

definition bad_size_request :: request where
  "bad_size_request =
     \<lparr> headers = [(''cookie'', ''alice'')],
       searchParams = [(''vmId'', ''1''), (''cols'', ''abc''), (''rows'', ''tall'')] \<rparr>"

definition connecting_session :: session where
  "connecting_session =
     \<lparr> phase = Connecting, conn_cols = Num 80, conn_rows = Num 30,
       pingInterval = True, readyState = OPEN \<rparr>"

section \<open>Properties\<close>

subsection \<open>Facts used more than once\<close>

lemma ascii_octets_of: "ascii (octets_of s) = s"
proof -
  have "char_of (unat (of_nat (of_char c :: nat) :: 8 word)) = c" for c :: char
    by (simp add: unat_of_nat)
  then show ?thesis
    by (simp add: ascii_def octets_of_def comp_def map_idI)
qed


lemma try_body_stream_calls: "list_all is_stream_call (fst (try_body h m))"
  by (simp add: try_body_def Let_def split: sum.splits json.splits option.splits prod.splits)

lemma inner_try_stream_calls: "list_all is_stream_call (fst (inner_try h m))"
  using try_body_stream_calls [of h m]
  by (cases "try_body h m") (simp add: inner_try_def Let_def split: option.splits)

lemma ws_on_message_ConnEnd: "ConnEnd \<notin> set (ws_on_message h m)"
  using inner_try_stream_calls [of h m]
  by (cases "inner_try h m")
     (auto simp: ws_on_message_def error_notice_def list_all_iff split: option.splits)

lemma ws_on_message_WsClose: "WsClose \<notin> set (ws_on_message h m)"
  using inner_try_stream_calls [of h m]
  by (cases "inner_try h m")
     (auto simp: ws_on_message_def error_notice_def list_all_iff split: option.splits)



subsection \<open>Resize messages\<close>

text \<open>
  Claim C1.  A message that decodes to an object whose \<^verbatim>\<open>type\<close> is \<^verbatim>\<open>"resize"\<close> and
  whose \<^verbatim>\<open>rows\<close> and \<^verbatim>\<open>cols\<close> are numbers makes the handler call
  \<^verbatim>\<open>stream.setWindow(rows, cols, cols * 7, rows * 14)\<close>, and that is the only call on
  the shell channel: nothing is written to the shell.  The one proviso is on the library:
  the resize call does not itself throw a \<^verbatim>\<open>SyntaxError\<close> (it may return or throw
  anything else).
\<close>

theorem resize_calls_setWindow_and_writes_nothing:
  fixes h :: "('n::{times,numeral}) host"
  assumes "JSON_parse h (toString h m) = Inr (JObj kvs)"
      and "map_of kvs ''type'' = Some (JStr ''resize'')"
      and "map_of kvs ''rows'' = Some (JNum r)"
      and "map_of kvs ''cols'' = Some (JNum c)"
      and "\<forall>x. setWindow_outcome h r c (c * 7) (r * 14) \<noteq> Some (SyntaxError x)"
  shows "filter is_stream_call (ws_on_message h m) = [StreamSetWindow r c (c * 7) (r * 14)]
         \<and> filter is_write (ws_on_message h m) = []"
proof (cases "setWindow_outcome h r c (c * 7) (r * 14)")
  case None
  with assms show ?thesis
    by (simp add: ws_on_message_def inner_try_def try_body_def)
next
  case (Some e)
  with assms have "\<not> instanceof_SyntaxError e"
    by (cases e) simp_all
  with Some assms show ?thesis
    by (simp add: ws_on_message_def inner_try_def try_body_def error_notice_def)
qed

text \<open>The scenario of the specification: 40 rows and 120 columns.\<close>

theorem resize_calls_setWindow_and_writes_nothing_witness:
  "filter is_stream_call (ws_on_message example_host (Buffer (octets_of resize_text)))
     = [StreamSetWindow 40 120 840 560]
   \<and> filter is_write (ws_on_message example_host (Buffer (octets_of resize_text))) = []"
proof -
  let ?m = "Buffer (octets_of resize_text)"
  let ?kvs = "[(''type'', JStr ''resize''), (''rows'', JNum 40), (''cols'', JNum (120::int))]"
  have p: "JSON_parse example_host (toString example_host ?m) = Inr (JObj ?kvs)"
    by (simp add: example_host_def ascii_octets_of example_parse_def)
  have t: "map_of ?kvs ''type'' = Some (JStr ''resize'')" by simp
  have r: "map_of ?kvs ''rows'' = Some (JNum 40)" by simp
  have c: "map_of ?kvs ''cols'' = Some (JNum 120)" by simp
  have o: "\<forall>x. setWindow_outcome example_host 40 120 (120 * 7) (40 * 14) \<noteq> Some (SyntaxError x)"
    by (simp add: example_host_def)
  from resize_calls_setWindow_and_writes_nothing [OF p t r c o] show ?thesis by simp
qed

subsection \<open>Messages that are not JSON\<close>









subsection \<open>Errors while a message is handled\<close>



subsection \<open>Teardown\<close>

lemma count_ws_on_message:
  "count_list (ws_on_message h m) ConnEnd = 0" "count_list (ws_on_message h m) WsClose = 0"
  using ws_on_message_ConnEnd [of h m] ws_on_message_WsClose [of h m]
  by (simp_all add: count_list_0_iff)

text \<open>Once the shell is open it stays so: no listener is removed.\<close>

lemma step_open_phase: "phase s = ShellOpen \<Longrightarrow> phase (fst (step h s e)) = ShellOpen"
  by (cases e) (simp_all add: closing_def)

lemma step_open_counts:
  "phase s = ShellOpen \<Longrightarrow>
     count_list (snd (step h s e)) ConnEnd = (if ends_conn e then 1 else 0)
   \<and> count_list (snd (step h s e)) WsClose = (if closes_ws e then 1 else 0)"
  by (cases e)
     (simp_all add: stream_on_close_def stream_on_data_def stderr_on_data_def stream_on_error_def
        ws_on_close_def conn_on_error_def ping_tick_def count_ws_on_message)

lemma run_open_counts:
  "phase s = ShellOpen \<Longrightarrow>
     count_list (run h s es) ConnEnd = length (filter ends_conn es)
   \<and> count_list (run h s es) WsClose = length (filter closes_ws es)"
proof (induction es arbitrary: s)
  case Nil
  then show ?case by simp
next
  case (Cons e es)
  from Cons.prems have "phase (fst (step h s e)) = ShellOpen"
    by (rule step_open_phase)
  from Cons.IH [OF this] step_open_counts [OF Cons.prems, of h e] show ?case
    by simp
qed

text \<open>
  Claim C3, as stated, fails.  The shell exits and the stream's \<^verbatim>\<open>close\<close> listener calls
  \<^verbatim>\<open>conn.end()\<close> and \<^verbatim>\<open>ws.close()\<close>; the socket then closes and its \<^verbatim>\<open>close\<close> listener
  calls \<^verbatim>\<open>conn.end()\<close> again.  The socket is closed once, the remote connection is ended
  twice.
\<close>

theorem teardown_by_both_close_events_ends_conn_twice:
  "\<not> (count_list (run example_host open_session [StreamClose ''0'', WsCloseEvent]) WsClose = 1
      \<and> count_list (run example_host open_session [StreamClose ''0'', WsCloseEvent]) ConnEnd = 1)"
  by (simp add: open_session_def closing_def stream_on_close_def ws_on_close_def)

text \<open>
  Claim C3, amended.  No listener is guarded: in a session whose shell is open, every
  trigger runs its listener.  Over any sequence of events, \<^verbatim>\<open>ws.close()\<close> is called once
  for each \<^verbatim>\<open>close\<close> of the stream and each \<^verbatim>\<open>error\<close> of the remote connection, and
  \<^verbatim>\<open>conn.end()\<close> once for each of these and for each \<^verbatim>\<open>close\<close> of the socket.  So when the
  stream's and the socket's \<^verbatim>\<open>close\<close> both fire, the socket is closed exactly once and
  the end of the remote connection is called twice.
\<close>

theorem teardown_calls_are_counted_by_triggers:
  fixes h :: "('n::{times,numeral}) host"
  assumes "phase s = ShellOpen"
  shows "count_list (run h s es) WsClose = length (filter closes_ws es)
       \<and> count_list (run h s es) ConnEnd = length (filter ends_conn es)"
  using run_open_counts [OF assms, of h es] by simp

theorem teardown_calls_are_counted_by_triggers_witness:
  "count_list (run example_host open_session [StreamClose ''0'', WsCloseEvent]) WsClose = 1
 \<and> count_list (run example_host open_session [StreamClose ''0'', WsCloseEvent]) ConnEnd = 2
 \<and> count_list (run example_host open_session [WsCloseEvent, StreamClose ''0'']) WsClose = 1
 \<and> count_list (run example_host open_session [WsCloseEvent, StreamClose ''0'']) ConnEnd = 2"
proof -
  have a: "phase open_session = ShellOpen" by (simp add: open_session_def)
  from teardown_calls_are_counted_by_triggers [OF a, of example_host "[StreamClose ''0'', WsCloseEvent]"]
       teardown_calls_are_counted_by_triggers [OF a, of example_host "[WsCloseEvent, StreamClose ''0'']"]
  show ?thesis by simp
qed

subsection \<open>The request and the connection attempt\<close>

lemma example_getSession:
  "getSession example_backend [(''cookie'', ''alice'')] = Some ''alice''"
  by (simp add: example_backend_def)

lemma example_vm_findFirst: "vm_findFirst example_backend ''1'' = Some example_vm"
  by (simp add: example_backend_def)

lemma example_sshInfo: "sshInfo example_vm = Some (info_with_key (Some 7))"
  by (simp add: example_vm_def info_with_key_def)

text \<open>What the handler does once the caller, the machine and its parameters are there.\<close>

lemma on_connection_resolved:
  assumes "getSession b (headers req) = Some u"
      and "searchParams_get req ''vmId'' = Some vmId" and "vmId \<noteq> []"
      and "vm_findFirst b vmId = Some v" and "sshInfo v = Some info"
  shows "on_connection b req =
           (Some \<lparr> phase = Connecting, conn_cols = fst (geometry req), conn_rows = snd (geometry req),
                    pingInterval = True, readyState = OPEN \<rparr>,
            [AuthGetSession, DbFindVm vmId] @ find_sshKey_query info @
            [SetInterval 30000, WsSend connecting_notice,
             ConnConnect (connect_options v info (select_privateKey (find_sshKey b info) info))])"
  using assms
  by (simp add: on_connection_def resolve_def start_session_def Let_def)

text \<open>A parameter that is absent gives 80 columns, 30 rows; one made of digits gives its value.\<close>

lemma geometry_absent:
  "searchParams_get req ''cols'' = None \<Longrightarrow> fst (geometry req) = Num 80"
  "searchParams_get req ''rows'' = None \<Longrightarrow> snd (geometry req) = Num 30"
  by (simp_all add: geometry_def parseInt_def is_space_def wide_spaces_def char_value_def digits_value_def)

lemma geometry_digits:
  "geometry \<lparr> headers = [], searchParams = [(''cols'', ''120''), (''rows'', ''40'')] \<rparr>
     = (Num 120, Num 40)"
  by (simp add: geometry_def searchParams_get_def parseInt_def is_space_def wide_spaces_def char_value_def
        digits_value_def)

text \<open>
  Claim C4 does not hold of the code where a parameter is present and not a number.  The
  request \<^verbatim>\<open>?vmId=1&cols=abc&rows=tall\<close> is accepted, \<^verbatim>\<open>Number.parseInt\<close> gives
  \<^verbatim>\<open>NaN\<close> for both sizes, and the shell is asked for with \<^verbatim>\<open>NaN\<close> columns and rows
  (and \<^verbatim>\<open>NaN\<close> pixels): the default of 80 by 30 covers the absent parameter only.
\<close>

theorem non_numeric_size_opens_shell_with_NaN:
  "fst (on_connection example_backend bad_size_request) =
     Some \<lparr> phase = Connecting, conn_cols = NaN, conn_rows = NaN,
            pingInterval = True, readyState = OPEN \<rparr>
   \<and> snd (step example_host
             \<lparr> phase = Connecting, conn_cols = NaN, conn_rows = NaN,
               pingInterval = True, readyState = OPEN \<rparr> ConnReady)
      = [ConnShell \<lparr> shell_term = ''xterm-256color'', shell_cols = NaN, shell_rows = NaN,
                     shell_width = NaN, shell_height = NaN \<rparr>]"
proof -
  have g: "geometry bad_size_request = (NaN, NaN)"
    by (simp add: geometry_def bad_size_request_def searchParams_get_def parseInt_def is_space_def wide_spaces_def
          char_value_def)
  have a: "getSession example_backend (headers bad_size_request) = Some ''alice''"
    by (simp add: bad_size_request_def example_getSession)
  have v: "searchParams_get bad_size_request ''vmId'' = Some ''1''"
    by (simp add: searchParams_get_def bad_size_request_def)
  have n: "''1'' \<noteq> []" by simp
  show ?thesis
    by (simp add: on_connection_resolved [OF a v n example_vm_findFirst example_sshInfo] g
          conn_on_ready_def)
qed

text \<open>
  Claim C7.  A caller with a session whose request names no machine (the parameter
  \<^verbatim>\<open>vmId\<close> is absent or empty) gets the notice \<^verbatim>\<open>[ERROR] Invalid request\<close> and the socket
  is closed.  These are the only effects after the check of the caller: no table is
  queried, no connection is attempted, and no listener is left behind.
\<close>

theorem missing_target_is_rejected_before_any_lookup:
  assumes "getSession b (headers req) = Some u"
      and "\<not> truthy (searchParams_get req ''vmId'')"
  shows "on_connection b req = (None, [AuthGetSession, WsSend ''[ERROR] Invalid request'', WsClose])"
  using assms
  by (simp add: on_connection_def reject_def truthy_def split: option.splits)

theorem missing_target_is_rejected_before_any_lookup_witness:
  "on_connection example_backend anonymous_target_request =
     (None, [AuthGetSession, WsSend ''[ERROR] Invalid request'', WsClose :: int effect])"
proof -
  have a: "getSession example_backend (headers anonymous_target_request) = Some ''alice''"
    by (simp add: anonymous_target_request_def example_getSession)
  have v: "\<not> truthy (searchParams_get anonymous_target_request ''vmId'')"
    by (simp add: truthy_def searchParams_get_def anonymous_target_request_def)
  from missing_target_is_rejected_before_any_lookup [OF a v] show ?thesis .
qed

text \<open>
  Claim C9.  When the request is accepted, the last effect of the handler is the call of
  \<^verbatim>\<open>conn.connect\<close>, with a connect timeout and a ready timeout of 3000, a keep-alive
  interval of 10000, port 22 when the parameters have no port, user \<^verbatim>\<open>root\<close> when they
  have no user name, and, when they have no host, the address stored with the machine
  (nothing when that is missing or empty).
\<close>

theorem connect_options_fallbacks_and_timeouts:
  assumes "getSession b (headers req) = Some u"
      and "searchParams_get req ''vmId'' = Some vmId" and "vmId \<noteq> []"
      and "vm_findFirst b vmId = Some v" and "sshInfo v = Some info"
  shows "\<exists>cfg. last (snd (on_connection b req :: session option \<times> 'n effect list)) = ConnConnect cfg
           \<and> timeout cfg = 3000 \<and> readyTimeout cfg = 3000 \<and> keepaliveInterval cfg = 10000
           \<and> (port info = None \<longrightarrow> cfg_port cfg = 22)
           \<and> (username info = None \<longrightarrow> cfg_username cfg = ''root'')
           \<and> (host info = None \<longrightarrow> cfg_host cfg = (if truthy (ipAddress v) then ipAddress v else None))"
proof -
  let ?cfg = "connect_options v info (select_privateKey (find_sshKey b info) info)"
  have a: "last (snd (on_connection b req :: session option \<times> 'n effect list)) = ConnConnect ?cfg"
    by (simp add: on_connection_resolved [OF assms])
  have c: "timeout ?cfg = 3000 \<and> readyTimeout ?cfg = 3000 \<and> keepaliveInterval ?cfg = 10000
           \<and> (port info = None \<longrightarrow> cfg_port ?cfg = 22)
           \<and> (username info = None \<longrightarrow> cfg_username ?cfg = ''root'')
           \<and> (host info = None \<longrightarrow> cfg_host ?cfg = (if truthy (ipAddress v) then ipAddress v else None))"
    by (simp add: connect_options_def truthy_def truthy_num_def)
  show ?thesis
    by (rule exI [of _ ?cfg], rule conjI, rule a, rule c)
qed

theorem connect_options_fallbacks_and_timeouts_witness:
  "\<exists>cfg. last (snd (on_connection example_backend plain_request :: session option \<times> int effect list))
            = ConnConnect cfg
         \<and> timeout cfg = 3000 \<and> readyTimeout cfg = 3000 \<and> keepaliveInterval cfg = 10000
         \<and> cfg_port cfg = 22 \<and> cfg_username cfg = ''root'' \<and> cfg_host cfg = Some ''10.0.0.5''"
proof -
  have a: "getSession example_backend (headers plain_request) = Some ''alice''"
    by (simp add: plain_request_def example_getSession)
  have v: "searchParams_get plain_request ''vmId'' = Some ''1''"
    by (simp add: searchParams_get_def plain_request_def)
  have n: "''1'' \<noteq> []" by simp
  from connect_options_fallbacks_and_timeouts [OF a v n example_vm_findFirst example_sshInfo]
  show ?thesis by (simp add: example_vm_def truthy_def info_with_key_def)
qed

text \<open>
  Claim C10.  The key passed to \<^verbatim>\<open>conn.connect\<close> is chosen so: when the parameters name
  a stored key, the key store has it and it has key material, that material; when they
  name no stored key, or the key store has none under that id, the inline material of
  the parameters.
\<close>

theorem stored_key_takes_precedence_over_inline_key:
  "(sshKeyId info = Some k \<and> k \<noteq> 0 \<and> sshKeys_findFirst b k = Some key \<and> key_privateKey key = Some pk
      \<longrightarrow> select_privateKey (find_sshKey b info) info = Some pk)
 \<and> (\<not> truthy_num (sshKeyId info) \<or> (sshKeyId info = Some k \<and> sshKeys_findFirst b k = None)
      \<longrightarrow> select_privateKey (find_sshKey b info) info = privateKey info)
 \<and> snd (start_session b cols rows v info) =
      find_sshKey_query info @
      [SetInterval 30000, WsSend connecting_notice,
       ConnConnect (connect_options v info (select_privateKey (find_sshKey b info) info))]
 \<and> cfg_privateKey (connect_options v info (select_privateKey (find_sshKey b info) info))
      = select_privateKey (find_sshKey b info) info"
  by (auto simp: start_session_def find_sshKey_def select_privateKey_def
        truthy_num_def connect_options_def split: option.splits)

theorem stored_key_takes_precedence_over_inline_key_witness:
  "select_privateKey (find_sshKey example_backend (info_with_key (Some 7))) (info_with_key (Some 7))
     = Some ''STORED''
   \<and> select_privateKey (find_sshKey example_backend (info_with_key (Some 8))) (info_with_key (Some 8))
     = Some ''INLINE''
   \<and> select_privateKey (find_sshKey example_backend (info_with_key None)) (info_with_key None)
     = Some ''INLINE''"
proof -
  let ?key = "\<lparr> key_privateKey = Some ''STORED'' \<rparr>"
  have p7: "sshKeyId (info_with_key (Some 7)) = Some 7 \<and> (7::int) \<noteq> 0
            \<and> sshKeys_findFirst example_backend 7 = Some ?key
            \<and> key_privateKey ?key = Some ''STORED''"
    by (simp add: example_backend_def info_with_key_def)
  have p8: "\<not> truthy_num (sshKeyId (info_with_key (Some 8)))
            \<or> (sshKeyId (info_with_key (Some 8)) = Some 8
                \<and> sshKeys_findFirst example_backend 8 = None)"
    by (simp add: example_backend_def info_with_key_def)
  have p0: "\<not> truthy_num (sshKeyId (info_with_key None))
            \<or> (sshKeyId (info_with_key None) = Some 0
                \<and> sshKeys_findFirst example_backend 0 = None)"
    by (simp add: truthy_num_def info_with_key_def)
  have i8: "privateKey (info_with_key (Some 8)) = Some ''INLINE''"
    and i0: "privateKey (info_with_key None) = Some ''INLINE''"
    by (simp_all add: info_with_key_def)
  from p7 stored_key_takes_precedence_over_inline_key
         [where info = "info_with_key (Some 7)" and k = 7 and b = example_backend
            and key = ?key and pk = "''STORED''"
            and cols = "Num 80" and rows = "Num 30" and v = example_vm]
  have a: "select_privateKey (find_sshKey example_backend (info_with_key (Some 7)))
             (info_with_key (Some 7)) = Some ''STORED''"
    by blast
  from p8 i8 stored_key_takes_precedence_over_inline_key
         [where info = "info_with_key (Some 8)" and k = 8 and b = example_backend
            and key = ?key and pk = "''STORED''"
            and cols = "Num 80" and rows = "Num 30" and v = example_vm]
  have b: "select_privateKey (find_sshKey example_backend (info_with_key (Some 8)))
             (info_with_key (Some 8)) = Some ''INLINE''"
    by metis
  from p0 i0 stored_key_takes_precedence_over_inline_key
         [where info = "info_with_key None" and k = 0 and b = example_backend
            and key = ?key and pk = "''STORED''"
            and cols = "Num 80" and rows = "Num 30" and v = example_vm]
  have c: "select_privateKey (find_sshKey example_backend (info_with_key None))
             (info_with_key None) = Some ''INLINE''"
    by metis
  from a b c show ?thesis by simp
qed

subsection \<open>Events of the shell channel and of the socket\<close>

text \<open>
  Claim C6.  In a session whose shell is open, an \<^verbatim>\<open>error\<close> event of the stream is
  logged and reported to the peer as \<^verbatim>\<open>[ERROR] Stream error:\<close> with its message; the
  session is unchanged, nothing is closed or ended.  Among the events of the shell
  channel (output, error output, error, close) the one whose listener closes the socket
  or ends the remote connection is \<^verbatim>\<open>close\<close>, and no other.
\<close>

theorem stream_error_is_reported_without_teardown:
  fixes h :: "('n::{times,numeral}) host"
  assumes "phase s = ShellOpen"
  shows "step h s (StreamError m) =
           (s, [ConsoleError ''Stream error:'', WsSend (''[ERROR] Stream error: '' @ m)])
       \<and> (is_stream_event e \<longrightarrow>
            (WsClose \<in> set (snd (step h s e)) \<or> ConnEnd \<in> set (snd (step h s e)))
              = (\<exists>code. e = StreamClose code))"
  using assms
  by (cases e)
     (simp_all add: stream_on_error_def stream_on_data_def stderr_on_data_def stream_on_close_def)

theorem stream_error_is_reported_without_teardown_witness:
  "step example_host open_session (StreamError ''read ECONNRESET'') =
     (open_session, [ConsoleError ''Stream error:'', WsSend ''[ERROR] Stream error: read ECONNRESET''])
   \<and> WsClose \<notin> set (snd (step example_host open_session (StreamError ''read ECONNRESET'')))
   \<and> ConnEnd \<notin> set (snd (step example_host open_session (StreamError ''read ECONNRESET'')))"
proof -
  have a: "phase open_session = ShellOpen" by (simp add: open_session_def)
  have b: "is_stream_event (StreamError ''read ECONNRESET'')" by simp
  from stream_error_is_reported_without_teardown
         [OF a, of example_host "''read ECONNRESET''" "StreamError ''read ECONNRESET''"] b
  show ?thesis by simp
qed

text \<open>
  Claim C8.  The socket's \<^verbatim>\<open>message\<close> listener is registered in the callback of
  \<^verbatim>\<open>conn.shell\<close>.  Until then a message has no listener: it has no effect, not even an
  error notice, and the session does not remember it, so what happens afterwards is what
  would have happened had the messages never come.
\<close>

theorem early_messages_are_dropped:
  fixes h :: "('n::{times,numeral}) host"
  assumes "phase s \<noteq> ShellOpen"
  shows "step h s (WsMessage m) = (s, [])
       \<and> run h s (map WsMessage ms @ es) = run h s es
       \<and> final h s (map WsMessage ms @ es) = final h s es"
  using assms by (induction ms) simp_all

text \<open>Two messages sent while connecting leave no trace in the run that follows.\<close>

theorem early_messages_are_dropped_witness:
  "run example_host connecting_session
     (map WsMessage [Buffer (octets_of ''ls''), Buffer (octets_of ''null'')]
      @ [ConnReady, ShellCallback None, StreamData ''$ ''])
   = [ConnShell \<lparr> shell_term = ''xterm-256color'', shell_cols = Num 80, shell_rows = Num 30,
                  shell_width = Num 560, shell_height = Num 420 \<rparr>,
      WsSend clearScreenCommand, StreamSetEncoding ''utf8'', WsSend ''$ '']"
proof -
  have a: "phase connecting_session \<noteq> ShellOpen" by (simp add: connecting_session_def)
  have "run example_host connecting_session [ConnReady, ShellCallback None, StreamData ''$ '']
   = [ConnShell \<lparr> shell_term = ''xterm-256color'', shell_cols = Num 80, shell_rows = Num 30,
                  shell_width = Num 560, shell_height = Num 420 \<rparr>,
      WsSend clearScreenCommand, StreamSetEncoding ''utf8'', WsSend ''$ '']"
    by (simp add: connecting_session_def conn_on_ready_def shell_callback_def stream_on_data_def)
  with early_messages_are_dropped [OF a, of example_host] show ?thesis by simp
qed

end
